theory Spec2Isabelle
  imports Main "HOL-Library.Word"
begin

section \<open>contextargs: the Context shared by the templates of a workflow\<close>

subsection \<open>Values of type \<open>interface{}\<close>\<close>

text \<open>
  The key-value store of a Context holds values of Go's empty interface. \<open>Context.Add\<close>
  switches on the dynamic type of such a value, and distinguishes \<open>[]string\<close>,
  \<open>string\<close> and everything else; \<open>[]interface{}\<close> is what its default branch builds.
  \<open>IOther n\<close> stands for a value of any other dynamic type (an int, a bool, a struct),
  \<open>INil\<close> for the nil interface. Slices are kept as the sequence of their elements:
  no operation below writes into an existing backing array.
\<close>

datatype iface =
    INil
  | IString string
  | IStrings "string list"
  | ISlice "iface list"
  | IOther nat

subsection \<open>The library's \<open>mapsutil.SyncLockMap\<close>\<close>

text \<open>
  \<open>SyncLockMap[K, V]\<close> of the utils library wraps a Go map and a read-only flag.
  \<open>Set\<close> and \<open>Merge\<close> refuse with \<open>ErrReadOnly\<close> when the flag is set and write
  otherwise, \<open>Get\<close> is the two-valued map lookup (the zero value and false for a
  missing key), \<open>Clone\<close> builds a new map object with the same entries and flag.
  The mutex is not modelled: every operation is atomic.
\<close>

record SyncLockMap =
  Map :: "string \<rightharpoonup> iface"
  ReadOnly :: bool

datatype maps_error = ErrReadOnly

definition SyncLockMap_Set ::
  "SyncLockMap \<Rightarrow> string \<Rightarrow> iface \<Rightarrow> maps_error option \<times> SyncLockMap" where
  "SyncLockMap_Set m k v =
     (if ReadOnly m then (Some ErrReadOnly, m)
      else (None, m\<lparr>Map := (Map m)(k \<mapsto> v)\<rparr>))"

definition SyncLockMap_Merge ::
  "SyncLockMap \<Rightarrow> (string \<rightharpoonup> iface) \<Rightarrow> maps_error option \<times> SyncLockMap" where
  "SyncLockMap_Merge m n =
     (if ReadOnly m then (Some ErrReadOnly, m)
      else (None, m\<lparr>Map := Map m ++ n\<rparr>))"

definition SyncLockMap_Get :: "SyncLockMap \<Rightarrow> string \<Rightarrow> iface \<times> bool" where
  "SyncLockMap_Get m k = (case Map m k of None \<Rightarrow> (INil, False) | Some v \<Rightarrow> (v, True))"

definition SyncLockMap_Has :: "SyncLockMap \<Rightarrow> string \<Rightarrow> bool" where
  "SyncLockMap_Has m k = (case Map m k of None \<Rightarrow> False | Some v \<Rightarrow> True)"

definition SyncLockMap_IsEmpty :: "SyncLockMap \<Rightarrow> bool" where
  "SyncLockMap_IsEmpty m = (Map m = Map.empty)"

definition SyncLockMap_Clone :: "SyncLockMap \<Rightarrow> SyncLockMap" where
  "SyncLockMap_Clone m = \<lparr>Map = Map m, ReadOnly = ReadOnly m\<rparr>"

subsection \<open>The store: objects behind pointers\<close>

text \<open>
  A Context holds three pointers. Whether two Contexts see each other's writes depends on
  whether these pointers are equal, so the objects live in a store and the Context holds
  addresses. \<open>fresh\<close> is the next address that \<open>&T{...}\<close> hands out; every address
  below it belongs to an object that has been allocated.
\<close>

type_synonym addr = nat

record MetaInput =
  Input :: string
  CustomIP :: string

record Cookie =
  Name :: string
  Value :: string

text \<open>
  A cookie jar is kept as the list of (URL, cookie) entries written to it. A write to a jar
  is any function on these contents; \<open>SetCookies\<close> below is the one used in examples.
\<close>

type_synonym Jar = "(string \<times> Cookie) list"

record store =
  metas :: "addr \<Rightarrow> MetaInput"
  jars :: "addr \<Rightarrow> Jar"
  maps :: "addr \<Rightarrow> SyncLockMap"
  fresh :: addr

record Context =
  MetaInput :: addr
  CookieJar :: "addr option"
  args :: addr

definition new_MetaInput :: "MetaInput \<Rightarrow> store \<Rightarrow> addr \<times> store" where
  "new_MetaInput mi s = (fresh s, s\<lparr>metas := (metas s)(fresh s := mi), fresh := Suc (fresh s)\<rparr>)"

definition new_Jar :: "store \<Rightarrow> addr \<times> store" where
  "new_Jar s = (fresh s, s\<lparr>jars := (jars s)(fresh s := []), fresh := Suc (fresh s)\<rparr>)"

definition new_SyncLockMap :: "SyncLockMap \<Rightarrow> store \<Rightarrow> addr \<times> store" where
  "new_SyncLockMap m s = (fresh s, s\<lparr>maps := (maps s)(fresh s := m), fresh := Suc (fresh s)\<rparr>)"

text \<open>
  Modelled from the spec: \<open>MetaInput.Clone\<close> is declared outside the files at hand. The
  spec calls a target cloneable, with the attributes \<open>input\<close> and \<open>CustomIP\<close>; the
  clone is a new object with the same attributes.
\<close>

definition MetaInput_Clone :: "addr \<Rightarrow> store \<Rightarrow> addr \<times> store" where
  "MetaInput_Clone p s =
     new_MetaInput \<lparr>Input = Input (metas s p), CustomIP = CustomIP (metas s p)\<rparr> s"

subsection \<open>The operations of Context\<close>

text \<open>
  \<open>NewWithInput\<close>: \<open>cookiejar.New(nil)\<close> returns a new empty jar (its error is always
  nil), then the Context is built with a new MetaInput and a new, writable, empty map.
\<close>

definition NewWithInput :: "string \<Rightarrow> store \<Rightarrow> Context \<times> store" where
  "NewWithInput input s =
     (let (jar, s1) = new_Jar s;
          (mi, s2) = new_MetaInput \<lparr>Input = input, CustomIP = []\<rparr> s1;
          (a, s3) = new_SyncLockMap \<lparr>Map = Map.empty, ReadOnly = False\<rparr> s2
      in (\<lparr>MetaInput = mi, CookieJar = Some jar, args = a\<rparr>, s3))"

definition New :: "store \<Rightarrow> Context \<times> store" where
  "New s = NewWithInput [] s"

text \<open>\<open>Set\<close> drops the error of the map's \<open>Set\<close>.\<close>

definition Context_Set :: "Context \<Rightarrow> string \<Rightarrow> iface \<Rightarrow> store \<Rightarrow> store" where
  "Context_Set ctx key v s =
     s\<lparr>maps := (maps s)(args ctx := snd (SyncLockMap_Set (maps s (args ctx)) key v))\<rparr>"

definition hasArgs :: "Context \<Rightarrow> store \<Rightarrow> bool" where
  "hasArgs ctx s = (\<not> SyncLockMap_IsEmpty (maps s (args ctx)))"

definition Context_Merge :: "Context \<Rightarrow> (string \<rightharpoonup> iface) \<Rightarrow> store \<Rightarrow> store" where
  "Context_Merge ctx n s =
     s\<lparr>maps := (maps s)(args ctx := snd (SyncLockMap_Merge (maps s (args ctx)) n))\<rparr>"

definition Context_Get :: "Context \<Rightarrow> string \<Rightarrow> store \<Rightarrow> iface \<times> bool" where
  "Context_Get ctx key s =
     (if \<not> hasArgs ctx s then (INil, False)
      else SyncLockMap_Get (maps s (args ctx)) key)"

definition Context_Has :: "Context \<Rightarrow> string \<Rightarrow> store \<Rightarrow> bool" where
  "Context_Has ctx key s = (hasArgs ctx s \<and> SyncLockMap_Has (maps s (args ctx)) key)"

text \<open>
  \<open>Add\<close>: the lookup, the \<open>Set\<close> under a missing key, and then, with no return in
  between, the type switch on the new value. The type assertions on the old value fail
  when it is nil; the default branch reads the key again with \<open>Get\<close>.
\<close>

definition Context_Add :: "Context \<Rightarrow> string \<Rightarrow> iface \<Rightarrow> store \<Rightarrow> store" where
  "Context_Add ctx key v s =
     (let (values, ok) = SyncLockMap_Get (maps s (args ctx)) key;
          s1 = (if \<not> ok then Context_Set ctx key v s else s)
      in case v of
           IStrings vs \<Rightarrow>
             (case values of
                IStrings old \<Rightarrow> Context_Set ctx key (IStrings (old @ vs)) s1
              | _ \<Rightarrow> s1)
         | IString str \<Rightarrow>
             (case values of
                IString old \<Rightarrow> Context_Set ctx key (IStrings [old, str]) s1
              | _ \<Rightarrow> s1)
         | _ \<Rightarrow> Context_Set ctx key (ISlice [fst (Context_Get ctx key s1), v]) s1)"

text \<open>
  \<open>Clone\<close>: a new MetaInput, a new map object, and the jar pointer of the original.
\<close>

definition Context_Clone :: "Context \<Rightarrow> store \<Rightarrow> Context \<times> store" where
  "Context_Clone ctx s =
     (let (mi, s1) = MetaInput_Clone (MetaInput ctx) s;
          (a, s2) = new_SyncLockMap (SyncLockMap_Clone (maps s1 (args ctx))) s1
      in (\<lparr>MetaInput = mi, CookieJar = CookieJar ctx, args = a\<rparr>, s2))"

text \<open>
  Reading and writing the jar of a Context go through the pointer; on a nil pointer the
  method call panics, which is \<open>None\<close>.
\<close>

definition jar_read :: "Context \<Rightarrow> store \<Rightarrow> Jar option" where
  "jar_read ctx s = (case CookieJar ctx of None \<Rightarrow> None | Some j \<Rightarrow> Some (jars s j))"

definition jar_write :: "Context \<Rightarrow> (Jar \<Rightarrow> Jar) \<Rightarrow> store \<Rightarrow> store option" where
  "jar_write ctx f s =
     (case CookieJar ctx of
        None \<Rightarrow> None
      | Some j \<Rightarrow> Some (s\<lparr>jars := (jars s)(j := f (jars s j))\<rparr>))"

text \<open>What \<open>reader\<close> finds in its jar after \<open>writer\<close> has written to its own.\<close>

definition jar_read_after_write ::
  "Context \<Rightarrow> Context \<Rightarrow> (Jar \<Rightarrow> Jar) \<Rightarrow> store \<Rightarrow> Jar option" where
  "jar_read_after_write reader writer f s =
     (case jar_write writer f s of None \<Rightarrow> None | Some s' \<Rightarrow> jar_read reader s')"

definition SetCookies :: "string \<Rightarrow> Cookie list \<Rightarrow> Jar \<Rightarrow> Jar" where
  "SetCookies u cookies jar = jar @ map (Pair u) cookies"

text \<open>
  A Context of the program points to allocated objects, and its map is writable: nothing
  in the package sets the read-only flag of \<open>args\<close>, and the field is not exported.
\<close>

definition Context_valid :: "store \<Rightarrow> Context \<Rightarrow> bool" where
  "Context_valid s ctx \<longleftrightarrow>
     MetaInput ctx < fresh s \<and> args ctx < fresh s \<and>
     (case CookieJar ctx of None \<Rightarrow> True | Some j \<Rightarrow> j < fresh s) \<and>
     \<not> ReadOnly (maps s (args ctx))"

definition empty_store :: store where
  "empty_store =
     \<lparr>metas = (\<lambda>_. \<lparr>Input = [], CustomIP = []\<rparr>), jars = (\<lambda>_. []),
      maps = (\<lambda>_. \<lparr>Map = Map.empty, ReadOnly = False\<rparr>), fresh = 0\<rparr>"

subsection \<open>Sequences of writes to one Context\<close>

text \<open>
  The three operations that write to the key-value store, the keys that each of them names,
  and a sequence of them applied to one Context in order.
\<close>

datatype ctx_op = OpSet string iface | OpAdd string iface | OpMerge "string \<rightharpoonup> iface"

fun op_keys :: "ctx_op \<Rightarrow> string set" where
  "op_keys (OpSet k v) = {k}"
| "op_keys (OpAdd k v) = {k}"
| "op_keys (OpMerge n) = dom n"

fun run_op :: "Context \<Rightarrow> ctx_op \<Rightarrow> store \<Rightarrow> store" where
  "run_op c (OpSet k v) s = Context_Set c k v s"
| "run_op c (OpAdd k v) s = Context_Add c k v s"
| "run_op c (OpMerge n) s = Context_Merge c n s"

definition run_ops :: "Context \<Rightarrow> ctx_op list \<Rightarrow> store \<Rightarrow> store" where
  "run_ops c ops s = fold (run_op c) ops s"

section \<open>The SDK engine: defaults, initialisation, thread-safe execution\<close>

subsection \<open>Errors\<close>

text \<open>
  One type for the errors that the functions below return. \<open>ErrNoTemplatesAvailable\<close>,
  \<open>ErrNoTargetsAvailable\<close> and \<open>ErrHostDenied\<close> are the package-level error values
  that the code names; \<open>Wrapped\<close> is \<open>errorutil.New(msg, err)\<close>; \<open>External\<close> is an
  error produced by a collaborator.
\<close>

datatype error =
    ErrNoTemplatesAvailable
  | ErrNoTargetsAvailable
  | ErrHostDenied string
  | Wrapped string error
  | External string

subsection \<open>Rate limiters and the host error cache\<close>

text \<open>
  A limiter of the ratelimit library is described by the call that built it:
  \<open>ratelimit.New(ctx, max, duration)\<close> is a bucket of \<open>max\<close> tokens per \<open>duration\<close>,
  \<open>ratelimit.NewUnlimited(ctx)\<close> is the unlimited one. Go's \<open>int\<close> and \<open>uint\<close> are
  64-bit words; the conversion \<open>uint(x)\<close> keeps the bits, and the bucket size is the
  unsigned reading.
\<close>

datatype Duration = Second | Minute

datatype Limiter = Bucket nat Duration | Unlimited

definition ratelimit_New :: "64 word \<Rightarrow> Duration \<Rightarrow> Limiter" where
  "ratelimit_New maxCount d = Bucket (unat maxCount) d"

definition ratelimit_NewUnlimited :: Limiter where
  "ratelimit_NewUnlimited = Unlimited"

text \<open>
  The choice of the limiter in the words of the spec, on the values of the two settings:
  the per-minute setting first, then the per-second one, then no limit.
\<close>

definition spec_RateLimiter :: "int \<Rightarrow> int \<Rightarrow> Limiter" where
  "spec_RateLimiter rateLimitMinute rateLimit =
     (if rateLimitMinute > 0 then Bucket (nat rateLimitMinute) Minute
      else if rateLimit > 0 then Bucket (nat rateLimit) Second
      else Unlimited)"

text \<open>
  Modelled from the spec: the package \<open>hosterrorscache\<close> is outside the files at hand. The
  spec describes the cache by its threshold \<open>MaxHostError\<close> and its bound on the number
  of tracked hosts, with the default bound 10,000. \<open>New(maxHostError, maxHostsCount,
  trackError)\<close> builds a cache with these settings.
\<close>

record HostErrorsCache =
  MaxHostError :: int
  MaxHostsCount :: int
  TrackError :: "string list"

definition hosterrorscache_New :: "int \<Rightarrow> int \<Rightarrow> string list \<Rightarrow> HostErrorsCache" where
  "hosterrorscache_New maxHostError maxHostsCount trackError =
     \<lparr>MaxHostError = maxHostError, MaxHostsCount = maxHostsCount, TrackError = trackError\<rparr>"

text \<open>
  Modelled from the spec: the constant \<open>DefaultMaxHostsCount\<close> is declared in the same
  package; the spec gives the default bound as 10,000 hosts.
\<close>

definition DefaultMaxHostsCount :: int where
  "DefaultMaxHostsCount = 10000"

subsection \<open>Options and the engine\<close>

text \<open>
  Of \<open>types.Options\<close> the fields that the functions below read or write. The objects
  of collaborators (HTTP clients, reporting clients, catalogs, callbacks) are handles.
\<close>

type_synonym handle = nat

record Options =
  ProxyInternal :: bool
  RateLimit :: "64 word"
  RateLimitMinute :: "64 word"
  ExcludeTags :: "string list"

datatype OutputWriter =
    MockOutputWriter "handle option"
  | UserWriter handle

datatype Progress =
    MockProgressClient
  | StatsTicker handle
  | UserProgress handle

record InteractshOptions =
  io_Output :: "OutputWriter option"
  io_Progress :: "Progress option"
  io_IssuesClient :: "handle option"
  io_HTTPClient :: "handle option"

text \<open>
  \<open>protocols.ExecutorOptions\<close>: every field is a pointer or an interface, and the zero
  value has them all nil. The colorizer and the resume configuration are left out.
\<close>

record ExecutorOptions =
  xo_Output :: "OutputWriter option"
  xo_Options :: "Options option"
  xo_Progress :: "Progress option"
  xo_Catalog :: "handle option"
  xo_IssuesClient :: "handle option"
  xo_RateLimiter :: "Limiter option"
  xo_Interactsh :: "handle option"
  xo_HostErrorsCache :: "HostErrorsCache option"
  xo_Browser :: "handle option"
  xo_WorkflowLoader :: "handle option"

definition zero_ExecutorOptions :: ExecutorOptions where
  "zero_ExecutorOptions =
     \<lparr>xo_Output = None, xo_Options = None, xo_Progress = None, xo_Catalog = None,
      xo_IssuesClient = None, xo_RateLimiter = None, xo_Interactsh = None,
      xo_HostErrorsCache = None, xo_Browser = None, xo_WorkflowLoader = None\<rparr>"

text \<open>\<open>core.Engine\<close> after \<open>core.New(opts)\<close> and \<open>SetExecuterOptions\<close>.\<close>

record CoreEngine =
  ce_options :: Options
  ce_executerOpts :: ExecutorOptions

text \<open>
  \<open>VulmapEngine\<close>. \<open>inputProvider\<close> is the \<open>Inputs\<close> slice of the
  \<open>SimpleInputProvider\<close>, when there is one.
\<close>

record VulmapEngine =
  opts :: Options
  customWriter :: "OutputWriter option"
  customProgress :: "Progress option"
  onFailureCallback :: "handle option"
  hostErrCache :: "HostErrorsCache option"
  interactshOpts :: "InteractshOptions option"
  rateLimiter :: "Limiter option"
  rc :: "handle option"
  inputProvider :: "MetaInput list option"
  httpClient :: "handle option"
  enableStats :: bool
  interactshClient :: "handle option"
  catalog :: "handle option"
  browserInstance :: "handle option"
  executerOpts :: ExecutorOptions
  engine :: "CoreEngine option"
  httpxClient :: "handle option"

definition zero_VulmapEngine :: "Options \<Rightarrow> VulmapEngine" where
  "zero_VulmapEngine options =
     \<lparr>opts = options, customWriter = None, customProgress = None, onFailureCallback = None,
      hostErrCache = None, interactshOpts = None, rateLimiter = None, rc = None,
      inputProvider = None, httpClient = None, enableStats = False,
      interactshClient = None, catalog = None, browserInstance = None,
      executerOpts = zero_ExecutorOptions, engine = None, httpxClient = None\<rparr>"

subsection \<open>The collaborators of initialisation\<close>

text \<open>
  What the calls into other packages return, and the two proxy globals. The ignore file is
  what \<open>config.ReadIgnoreFile()\<close> returns.
\<close>

record IgnoreFile =
  Tags :: "string list"
  Files :: "string list"

record init_env =
  ValidateOptions :: "Options \<Rightarrow> error option"
  ProxyURL :: string
  ProxySocksURL :: string
  httpclientpool_Get :: "Options \<Rightarrow> error + handle"
  ReadIgnoreFile :: IgnoreFile
  NewStatsTicker :: "error + handle"
  CreateConfigIfNotExists :: "error option"
  reporting_New :: "error + handle"
  interactsh_New :: "InteractshOptions option \<Rightarrow> error + handle"
  NewCatalog :: handle
  httpx_New :: "error + handle"
  updateCheckDone :: bool
  UpdateIfOutdated :: "error option"

text \<open>
  \<open>interactsh.DefaultOptions(output, reporting, progress)\<close>, by its parameters.
\<close>

definition interactsh_DefaultOptions ::
  "OutputWriter option \<Rightarrow> handle option \<Rightarrow> Progress option \<Rightarrow> InteractshOptions" where
  "interactsh_DefaultOptions out issues prog =
     \<lparr>io_Output = out, io_Progress = prog, io_IssuesClient = issues, io_HTTPClient = None\<rparr>"

subsection \<open>applyRequiredDefaults\<close>

text \<open>
  Field by field, in the order of the source. The write callback of the mock writer is a
  closure over the engine's callbacks and is not part of the model; its failure callback
  is the engine's.
\<close>

definition applyRequiredDefaults :: "init_env \<Rightarrow> VulmapEngine \<Rightarrow> VulmapEngine" where
  "applyRequiredDefaults env e =
     (let e1 = (if customWriter e = None
                then e\<lparr>customWriter := Some (MockOutputWriter (onFailureCallback e))\<rparr>
                else e);
          e2 = (if customProgress e1 = None
                then e1\<lparr>customProgress := Some MockProgressClient\<rparr>
                else e1);
          e3 = (if hostErrCache e2 = None
                then e2\<lparr>hostErrCache := Some (hosterrorscache_New 30 DefaultMaxHostsCount [])\<rparr>
                else e2);
          e4 = (case interactshOpts e3 of
                  Some io \<Rightarrow>
                    e3\<lparr>interactshOpts :=
                         Some (io\<lparr>io_Output := customWriter e3, io_Progress := customProgress e3\<rparr>)\<rparr>
                | None \<Rightarrow>
                    e3\<lparr>interactshOpts :=
                         Some (interactsh_DefaultOptions (customWriter e3) (rc e3) (customProgress e3))\<rparr>);
          e5 = (if rateLimiter e4 = None
                then e4\<lparr>rateLimiter := Some (ratelimit_New 150 Second)\<rparr>
                else e4);
          e6 = e5\<lparr>opts := (opts e5)\<lparr>ExcludeTags := Tags (ReadIgnoreFile env)\<rparr>\<rparr>
      in e6\<lparr>inputProvider := Some []\<rparr>)"

subsection \<open>init\<close>

text \<open>
  The body of \<open>init\<close>, block by block in the order of the source; the result is the
  returned error and the engine as the call leaves it. Setting the level of the global
  logger, the two \<open>Init\<close> calls whose errors are dropped, and the version check are calls
  into other packages that do not touch the engine.
\<close>

definition set_interactshOpts ::
  "(InteractshOptions \<Rightarrow> InteractshOptions) \<Rightarrow> VulmapEngine \<Rightarrow> VulmapEngine" where
  "set_interactshOpts f e = e\<lparr>interactshOpts := map_option f (interactshOpts e)\<rparr>"

text \<open>The proxy block: \<open>&&\<close> binds tighter than \<open>||\<close>.\<close>

definition init_httpClient :: "init_env \<Rightarrow> VulmapEngine \<Rightarrow> error + VulmapEngine" where
  "init_httpClient env e =
     (if ProxyInternal (opts e) \<and> ProxyURL env \<noteq> [] \<or> ProxySocksURL env \<noteq> []
      then (case httpclientpool_Get env (opts e) of
              Inl err \<Rightarrow> Inl err
            | Inr httpclient \<Rightarrow> Inr (e\<lparr>httpClient := Some httpclient\<rparr>))
      else Inr e)"

text \<open>The progress block. Its failure is \<open>Inl\<close>; \<open>init\<close> then returns \<open>err\<close>, which
  is still nil at that point.\<close>

definition init_progress :: "init_env \<Rightarrow> VulmapEngine \<Rightarrow> error + VulmapEngine" where
  "init_progress env e =
     (if enableStats e
      then (case NewStatsTicker env of
              Inl progressErr \<Rightarrow> Inl progressErr
            | Inr progressInstance \<Rightarrow>
                Inr (set_interactshOpts (\<lambda>io. io\<lparr>io_Progress := Some (StatsTicker progressInstance)\<rparr>)
                       (e\<lparr>customProgress := Some (StatsTicker progressInstance)\<rparr>)))
      else Inr e)"

text \<open>The issues client and the HTTP client of the interactsh options.\<close>

definition init_interactshOpts :: "VulmapEngine \<Rightarrow> VulmapEngine" where
  "init_interactshOpts e =
     (let e1 = set_interactshOpts (\<lambda>io. io\<lparr>io_IssuesClient := rc e\<rparr>) e
      in if httpClient e1 \<noteq> None
         then set_interactshOpts (\<lambda>io. io\<lparr>io_HTTPClient := httpClient e1\<rparr>) e1
         else e1)"

text \<open>The catalog and the literal of the executor options.\<close>

definition init_executerOpts :: "init_env \<Rightarrow> VulmapEngine \<Rightarrow> VulmapEngine" where
  "init_executerOpts env e =
     (let e1 = e\<lparr>catalog := Some (NewCatalog env)\<rparr>
      in e1\<lparr>executerOpts :=
             \<lparr>xo_Output = customWriter e1, xo_Options = Some (opts e1),
              xo_Progress = customProgress e1, xo_Catalog = catalog e1,
              xo_IssuesClient = rc e1, xo_RateLimiter = rateLimiter e1,
              xo_Interactsh = interactshClient e1, xo_HostErrorsCache = hostErrCache e1,
              xo_Browser = browserInstance e1, xo_WorkflowLoader = None\<rparr>\<rparr>)"

text \<open>The three-way choice of the executor's rate limiter.\<close>

definition init_RateLimiter :: "VulmapEngine \<Rightarrow> VulmapEngine" where
  "init_RateLimiter e =
     (if 0 <s RateLimitMinute (opts e)
      then e\<lparr>executerOpts := (executerOpts e)
             \<lparr>xo_RateLimiter := Some (ratelimit_New (RateLimitMinute (opts e)) Minute)\<rparr>\<rparr>
      else if 0 <s RateLimit (opts e)
      then e\<lparr>executerOpts := (executerOpts e)
             \<lparr>xo_RateLimiter := Some (ratelimit_New (RateLimit (opts e)) Second)\<rparr>\<rparr>
      else e\<lparr>executerOpts := (executerOpts e)
             \<lparr>xo_RateLimiter := Some ratelimit_NewUnlimited\<rparr>\<rparr>)"

text \<open>\<open>core.New\<close> and \<open>SetExecuterOptions\<close>.\<close>

definition init_engine :: "VulmapEngine \<Rightarrow> VulmapEngine" where
  "init_engine e = e\<lparr>engine := Some \<lparr>ce_options = opts e, ce_executerOpts = executerOpts e\<rparr>\<rparr>"

text \<open>The update check runs once per process.\<close>

definition processUpdateCheckResults :: "init_env \<Rightarrow> error option" where
  "processUpdateCheckResults env = (if updateCheckDone env then None else UpdateIfOutdated env)"

definition init :: "init_env \<Rightarrow> VulmapEngine \<Rightarrow> error option \<times> VulmapEngine" where
  "init env e0 =
     (case ValidateOptions env (opts e0) of
        Some err \<Rightarrow> (Some err, e0)
      | None \<Rightarrow>
     (case init_httpClient env e0 of
        Inl err \<Rightarrow> (Some err, e0)
      | Inr e1 \<Rightarrow>
     (let e2 = applyRequiredDefaults env e1 in
     (case init_progress env e2 of
        Inl progressErr \<Rightarrow> (None, e2)
      | Inr e3 \<Rightarrow>
     (case CreateConfigIfNotExists env of
        Some err \<Rightarrow> (Some err, e3)
      | None \<Rightarrow>
     (case reporting_New env of
        Inl err \<Rightarrow> (Some err, e3\<lparr>rc := None\<rparr>)
      | Inr r \<Rightarrow>
     (let e4 = init_interactshOpts (e3\<lparr>rc := Some r\<rparr>) in
     (case interactsh_New env (interactshOpts e4) of
        Inl err \<Rightarrow> (Some err, e4\<lparr>interactshClient := None\<rparr>)
      | Inr client \<Rightarrow>
     (let e5 = init_engine (init_RateLimiter (init_executerOpts env
                 (e4\<lparr>interactshClient := Some client\<rparr>)))
      in
     (case httpx_New env of
        Inl err \<Rightarrow> (Some err, e5\<lparr>httpxClient := None\<rparr>)
      | Inr hx \<Rightarrow> (processUpdateCheckResults env, e5\<lparr>httpxClient := Some hx\<rparr>)))))))))))"

subsection \<open>The thread-safe engine\<close>

record unsafeOptions =
  u_executerOpts :: ExecutorOptions
  u_engine :: "CoreEngine option"

text \<open>\<open>createEphemeralObjects\<close>; the error it returns is always nil.\<close>

definition createEphemeralObjects :: "VulmapEngine \<Rightarrow> Options \<Rightarrow> error + unsafeOptions" where
  "createEphemeralObjects base options =
     (let u0 = \<lparr>u_executerOpts =
                  \<lparr>xo_Output = customWriter base, xo_Options = Some options,
                   xo_Progress = customProgress base, xo_Catalog = catalog base,
                   xo_IssuesClient = rc base, xo_RateLimiter = rateLimiter base,
                   xo_Interactsh = interactshClient base,
                   xo_HostErrorsCache = hostErrCache base,
                   xo_Browser = None, xo_WorkflowLoader = None\<rparr>,
                u_engine = None\<rparr>;
          u1 = (if 0 <s RateLimitMinute options
                then u0\<lparr>u_executerOpts := (u_executerOpts u0)
                       \<lparr>xo_RateLimiter := Some (ratelimit_New (RateLimitMinute options) Minute)\<rparr>\<rparr>
                else if 0 <s RateLimit options
                then u0\<lparr>u_executerOpts := (u_executerOpts u0)
                       \<lparr>xo_RateLimiter := Some (ratelimit_New (RateLimit options) Second)\<rparr>\<rparr>
                else u0\<lparr>u_executerOpts := (u_executerOpts u0)
                       \<lparr>xo_RateLimiter := Some ratelimit_NewUnlimited\<rparr>\<rparr>)
      in Inr (u1\<lparr>u_engine :=
                  Some \<lparr>ce_options = options, ce_executerOpts = u_executerOpts u1\<rparr>\<rparr>))"

text \<open>
  An SDK option is a function on the engine that may fail. The loop over the options
  returns at the first error.
\<close>

type_synonym VulmapSDKOptions = "VulmapEngine \<Rightarrow> error option \<times> VulmapEngine"

fun apply_options :: "VulmapSDKOptions list \<Rightarrow> VulmapEngine \<Rightarrow> error + VulmapEngine" where
  "apply_options [] e = Inr e"
| "apply_options (option # rest) e =
     (case option e of
        (Some err, e') \<Rightarrow> Inl err
      | (None, e') \<Rightarrow> apply_options rest e')"

text \<open>
  The template store as \<open>store.Load()\<close> leaves it, and the collaborators of
  \<open>ExecuteVulmapWithOpts\<close>: the two loaders, and \<open>Set\<close> and \<open>Count\<close> of the
  \<open>SimpleInputProvider\<close>, which act on its \<open>Inputs\<close>.
\<close>

record Store =
  Templates :: "string list"
  Workflows :: "string list"

record exec_env =
  parsers_NewLoader :: "ExecutorOptions \<Rightarrow> error + handle"
  loader_New :: "Options \<Rightarrow> handle option \<Rightarrow> ExecutorOptions \<Rightarrow> error + Store"
  provider_Set :: "MetaInput list \<Rightarrow> string \<Rightarrow> MetaInput list"
  provider_Count :: "MetaInput list \<Rightarrow> int"

text \<open>A scan that was started: what \<open>ExecuteScanWithOpts\<close> was called with.\<close>

record Scan =
  scan_executerOpts :: ExecutorOptions
  scan_templates :: "string list"
  scan_inputs :: "MetaInput list"

definition load_targets :: "exec_env \<Rightarrow> string list \<Rightarrow> MetaInput list" where
  "load_targets env targets = fold (\<lambda>target inputs. provider_Set env inputs target) targets []"

definition ExecuteVulmapWithOpts ::
  "exec_env \<Rightarrow> VulmapEngine \<Rightarrow> string list \<Rightarrow> VulmapSDKOptions list
     \<Rightarrow> error option \<times> Scan option" where
  "ExecuteVulmapWithOpts env eng targets options =
     (case apply_options options (zero_VulmapEngine (opts eng)) of
        Inl err \<Rightarrow> (Some err, None)
      | Inr tmpEngine \<Rightarrow>
     (case createEphemeralObjects eng (opts tmpEngine) of
        Inl err \<Rightarrow> (Some err, None)
      | Inr unsafeOpts \<Rightarrow>
     (case parsers_NewLoader env (u_executerOpts unsafeOpts) of
        Inl err \<Rightarrow> (Some (Wrapped ''Could not create workflow loader: %s'' err), None)
      | Inr workflowLoader \<Rightarrow>
     (let xo = (u_executerOpts unsafeOpts)\<lparr>xo_WorkflowLoader := Some workflowLoader\<rparr> in
     (case loader_New env (opts tmpEngine) (catalog eng) xo of
        Inl err \<Rightarrow> (Some (Wrapped ''Could not create loader client: %s'' err), None)
      | Inr store \<Rightarrow>
     (let inputProvider = load_targets env targets in
      if Templates store = [] \<and> Workflows store = [] then (Some ErrNoTemplatesAvailable, None)
      else if provider_Count env inputProvider = 0 then (Some ErrNoTargetsAvailable, None)
      else (None, Some \<lparr>scan_executerOpts = xo, scan_templates = Templates store,
                        scan_inputs = inputProvider\<rparr>)))))))"

section \<open>The LDAP client\<close>

subsection \<open>Strings\<close>

text \<open>\<open>%d\<close> of \<open>fmt.Sprintf\<close>: the decimal digits, with a minus sign below zero.\<close>

fun digits :: "nat \<Rightarrow> string" where
  "digits n =
     (if n < 10 then [char_of (48 + n)]
      else digits (n div 10) @ [char_of (48 + n mod 10)])"

declare digits.simps [simp del]

definition Itoa :: "int \<Rightarrow> string" where
  "Itoa i = (if i < 0 then CHR ''-'' # digits (nat (- i)) else digits (nat i))"

text \<open>\<open>strings.Split\<close> with a one-byte separator, \<open>TrimPrefix\<close> and \<open>Join\<close>.\<close>

fun Split :: "string \<Rightarrow> char \<Rightarrow> string list" where
  "Split [] sep = [[]]"
| "Split (c # cs) sep =
     (if c = sep then [] # Split cs sep
      else (case Split cs sep of
              [] \<Rightarrow> [[c]]
            | part # parts \<Rightarrow> (c # part) # parts))"

definition TrimPrefix :: "string \<Rightarrow> string \<Rightarrow> string" where
  "TrimPrefix s pre = (if take (length pre) s = pre then drop (length pre) s else s)"

fun Join :: "string list \<Rightarrow> string \<Rightarrow> string" where
  "Join [] sep = []"
| "Join [part] sep = part"
| "Join (part # parts) sep = part @ sep @ Join parts sep"

subsection \<open>The collaborators\<close>

text \<open>
  The network policy and the dialer of \<open>protocolstate\<close>, the fingerprint plugin, the
  operations of an LDAP connection, and \<open>strings.ToLower\<close>. A search is determined by
  the attributes it asks for (the other fields of the two requests are the same). An
  entry is the list of its attributes, each a name with its values.
\<close>

type_synonym conn = nat

type_synonym Entry = "(string \<times> string list) list"

record ldap_env =
  IsHostAllowed :: "string \<Rightarrow> bool"
  Dial :: "string \<Rightarrow> string \<Rightarrow> error + conn"
  plugin_Run :: "conn \<Rightarrow> string \<Rightarrow> error + handle option"
  UnauthenticatedBind :: "conn \<Rightarrow> string \<Rightarrow> error option"
  Bind :: "conn \<Rightarrow> string \<Rightarrow> string \<Rightarrow> error option"
  Search :: "conn \<Rightarrow> string list \<Rightarrow> error + Entry list"
  ToLower :: "string \<Rightarrow> string"

text \<open>What a call does on the network: the dials it attempts and the connections it closes.\<close>

datatype net_event = Dialed string string | Closed conn

text \<open>\<open>Entry.GetAttributeValue\<close> of the LDAP library: the first value of the first
  attribute of that name, or the empty string.\<close>

fun GetAttributeValue :: "Entry \<Rightarrow> string \<Rightarrow> string" where
  "GetAttributeValue [] attribute = []"
| "GetAttributeValue ((name, vals) # rest) attribute =
     (if name = attribute then (case vals of [] \<Rightarrow> [] | v # _ \<Rightarrow> v)
      else GetAttributeValue rest attribute)"

subsection \<open>IsLdap\<close>

definition IsLdap ::
  "ldap_env \<Rightarrow> string \<Rightarrow> int \<Rightarrow> (bool \<times> error option) \<times> net_event list" where
  "IsLdap env host port =
     (if \<not> IsHostAllowed env host then ((False, Some (ErrHostDenied host)), [])
      else
        (let address = host @ '':'' @ Itoa port in
         case Dial env ''tcp'' address of
           Inl err \<Rightarrow> ((False, Some err), [Dialed ''tcp'' address])
         | Inr c \<Rightarrow>
             (case plugin_Run env c host of
                Inl err \<Rightarrow> ((False, Some err), [Dialed ''tcp'' address, Closed c])
              | Inr None \<Rightarrow> ((False, None), [Dialed ''tcp'' address, Closed c])
              | Inr (Some service) \<Rightarrow> ((True, None), [Dialed ''tcp'' address, Closed c]))))"

subsection \<open>CollectLdapMetadata\<close>

record ldapSessionOptions =
  domain :: string
  domainController :: string
  port :: int
  username :: string
  password :: string
  baseDN :: string

record LDAPMetadata =
  BaseDN :: string
  Domain' :: string
  DefaultNamingContext :: string
  DomainFunctionality :: string
  ForestFunctionality :: string
  DomainControllerFunctionality :: string
  DnsHostName :: string

definition zero_LDAPMetadata :: LDAPMetadata where
  "zero_LDAPMetadata =
     \<lparr>BaseDN = [], Domain' = [], DefaultNamingContext = [], DomainFunctionality = [],
      ForestFunctionality = [], DomainControllerFunctionality = [], DnsHostName = []\<rparr>"

definition newLdapSession ::
  "ldap_env \<Rightarrow> ldapSessionOptions \<Rightarrow> (error + conn) \<times> net_event list" where
  "newLdapSession env options =
     (let p = (if port options = 0 then 389 else port options);
          address = domainController options @ '':'' @ Itoa p
      in case Dial env ''tcp'' address of
           Inl err \<Rightarrow> (Inl err, [Dialed ''tcp'' address])
         | Inr c \<Rightarrow> (Inr c, [Dialed ''tcp'' address]))"

definition parseDC :: "ldap_env \<Rightarrow> string \<Rightarrow> string" where
  "parseDC env input =
     Join (map (\<lambda>part. TrimPrefix part ''dc='') (Split (ToLower env input) CHR '','')) ''.''"

definition getBaseNamingContext ::
  "ldap_env \<Rightarrow> ldapSessionOptions \<Rightarrow> conn \<Rightarrow> string \<times> error option" where
  "getBaseNamingContext env options c =
     (if baseDN options \<noteq> [] then (baseDN options, None)
      else case Search env c [''defaultNamingContext''] of
             Inl err \<Rightarrow> ([], Some err)
           | Inr [] \<Rightarrow>
               ([], Some (External ''error getting metadata: No LDAP responses from server''))
           | Inr (entry # _) \<Rightarrow>
               (let defaultNamingContext = GetAttributeValue entry ''defaultNamingContext'' in
                if defaultNamingContext = []
                then ([], Some (External ''error getting metadata: attribute defaultNamingContext missing''))
                else (defaultNamingContext, None)))"

definition set_attribute :: "string \<Rightarrow> string \<Rightarrow> LDAPMetadata \<Rightarrow> LDAPMetadata" where
  "set_attribute name v metadata =
     (if name = ''defaultNamingContext'' then metadata\<lparr>DefaultNamingContext := v\<rparr>
      else if name = ''domainFunctionality'' then metadata\<lparr>DomainFunctionality := v\<rparr>
      else if name = ''forestFunctionality'' then metadata\<lparr>ForestFunctionality := v\<rparr>
      else if name = ''domainControllerFunctionality''
        then metadata\<lparr>DomainControllerFunctionality := v\<rparr>
      else if name = ''dnsHostName'' then metadata\<lparr>DnsHostName := v\<rparr>
      else metadata)"

definition collectLdapMetadata ::
  "ldap_env \<Rightarrow> conn \<Rightarrow> ldapSessionOptions \<Rightarrow> LDAPMetadata \<times> error option" where
  "collectLdapMetadata env lConn options =
     (case (if username options = [] then UnauthenticatedBind env lConn []
            else Bind env lConn (username options) (password options)) of
        Some err \<Rightarrow> (zero_LDAPMetadata, Some err)
      | None \<Rightarrow>
          (let dn = fst (getBaseNamingContext env options lConn);
               metadata = zero_LDAPMetadata\<lparr>BaseDN := dn, Domain' := parseDC env dn\<rparr>
           in case Search env lConn
                     [''defaultNamingContext'', ''domainFunctionality'', ''forestFunctionality'',
                      ''domainControllerFunctionality'', ''dnsHostName''] of
                Inl err \<Rightarrow> (metadata, Some err)
              | Inr entries \<Rightarrow>
                  (fold (\<lambda>entry md.
                           fold (\<lambda>attr. set_attribute (fst attr) (GetAttributeValue entry (fst attr)))
                             entry md)
                        entries metadata,
                   None)))"

definition CollectLdapMetadata ::
  "ldap_env \<Rightarrow> string \<Rightarrow> string \<Rightarrow> (LDAPMetadata \<times> error option) \<times> net_event list" where
  "CollectLdapMetadata env domain' controller =
     (let options = \<lparr>domain = domain', domainController = controller, port = 0,
                     username = [], password = [], baseDN = []\<rparr>
      in if \<not> IsHostAllowed env domain'
         then ((zero_LDAPMetadata, Some (ErrHostDenied domain')), [])
         else (case newLdapSession env options of
                 (Inl err, evs) \<Rightarrow> ((zero_LDAPMetadata, Some err), evs)
               | (Inr c, evs) \<Rightarrow> (collectLdapMetadata env c options, evs @ [Closed c])))"

section \<open>Clustering of HTTP templates\<close>

text \<open>
  Modelled from the spec: the clustering code and the HTTP executor are outside the files
  at hand. The spec's words: HTTP templates whose base request (method, path, body) is
  byte-identical are clustered; one physical HTTP request is issued, and each cluster
  member evaluates its own matchers against the shared response. A matcher is one of the
  kinds status, size and word, with a condition across its own patterns and a negative
  inverter; a template holds a list of matchers and a matchers-condition; a result event
  is built when the matcher group succeeds. The target is a mocked one: it answers a
  request by a response that depends on the request only.
\<close>

record HttpRequest =
  Method :: string
  Path :: string
  Body :: string

record HttpResponse =
  StatusCode :: nat
  Header :: string
  ResponseBody :: string

datatype ConditionType = ANDCondition | ORCondition

datatype MatcherType =
    StatusMatcher "nat list"
  | SizeMatcher "nat list"
  | WordsMatcher "string list"

record Matcher =
  matcher_name :: string
  matcher_type :: MatcherType
  matcher_condition :: ConditionType
  matcher_negative :: bool

record Template =
  template_id :: string
  template_request :: HttpRequest
  template_matchers :: "Matcher list"
  matchers_condition :: ConditionType

record ResultEvent =
  TemplateID :: string
  Matched :: string
  MatcherNames :: "string list"

fun has_prefix :: "string \<Rightarrow> string \<Rightarrow> bool" where
  "has_prefix s [] = True"
| "has_prefix [] (p # ps) = False"
| "has_prefix (c # cs) (p # ps) = (c = p \<and> has_prefix cs ps)"

fun contains :: "string \<Rightarrow> string \<Rightarrow> bool" where
  "contains [] w = (w = [])"
| "contains (c # cs) w = (has_prefix (c # cs) w \<or> contains cs w)"

definition combine :: "ConditionType \<Rightarrow> bool list \<Rightarrow> bool" where
  "combine cond bs = (case cond of ANDCondition \<Rightarrow> list_all id bs | ORCondition \<Rightarrow> list_ex id bs)"

definition match :: "Matcher \<Rightarrow> HttpResponse \<Rightarrow> bool" where
  "match m resp =
     (let r = (case matcher_type m of
                 StatusMatcher codes \<Rightarrow> StatusCode resp \<in> set codes
               | SizeMatcher sizes \<Rightarrow> length (ResponseBody resp) \<in> set sizes
               | WordsMatcher ws \<Rightarrow>
                   combine (matcher_condition m) (map (contains (ResponseBody resp)) ws))
      in if matcher_negative m then \<not> r else r)"

definition evaluate :: "Template \<Rightarrow> string \<Rightarrow> HttpResponse \<Rightarrow> ResultEvent list" where
  "evaluate t url resp =
     (if combine (matchers_condition t) (map (\<lambda>m. match m resp) (template_matchers t))
      then [\<lparr>TemplateID = template_id t, Matched = url,
             MatcherNames = map matcher_name (filter (\<lambda>m. match m resp) (template_matchers t))\<rparr>]
      else [])"

text \<open>
  A run returns the events it emits and the requests it sends to the target.
\<close>

definition run_template ::
  "(HttpRequest \<Rightarrow> HttpResponse) \<Rightarrow> string \<Rightarrow> Template \<Rightarrow> ResultEvent list \<times> HttpRequest list" where
  "run_template target url t = (evaluate t url (target (template_request t)), [template_request t])"

definition run_separately ::
  "(HttpRequest \<Rightarrow> HttpResponse) \<Rightarrow> string \<Rightarrow> Template list \<Rightarrow> ResultEvent list \<times> HttpRequest list" where
  "run_separately target url ts =
     (concat (map (\<lambda>t. fst (run_template target url t)) ts),
      concat (map (\<lambda>t. snd (run_template target url t)) ts))"

definition run_cluster ::
  "(HttpRequest \<Rightarrow> HttpResponse) \<Rightarrow> string \<Rightarrow> Template list \<Rightarrow> ResultEvent list \<times> HttpRequest list" where
  "run_cluster target url ts =
     (case ts of
        [] \<Rightarrow> ([], [])
      | t0 # _ \<Rightarrow>
          (let resp = target (template_request t0)
           in (concat (map (\<lambda>t. evaluate t url resp) ts), [template_request t0])))"

definition same_base_request :: "Template list \<Rightarrow> bool" where
  "same_base_request ts =
     (case ts of [] \<Rightarrow> True | t0 # rest \<Rightarrow> list_all (\<lambda>t. template_request t = template_request t0) rest)"

section \<open>Concrete values\<close>

text \<open>The inputs at which the theorems below are evaluated.\<close>

definition ex_ctx :: Context where
  "ex_ctx = fst (NewWithInput ''http://example.com'' empty_store)"

definition ex_store0 :: store where
  "ex_store0 = snd (NewWithInput ''http://example.com'' empty_store)"

definition ex_store :: store where
  "ex_store = Context_Set ex_ctx ''token'' (IString ''abc'') ex_store0"

definition ex_clone :: Context where
  "ex_clone = fst (Context_Clone ex_ctx ex_store)"

definition ex_store1 :: store where
  "ex_store1 = snd (Context_Clone ex_ctx ex_store)"

definition ex_cookie :: Cookie where
  "ex_cookie = \<lparr>Name = ''session'', Value = ''1''\<rparr>"

definition ex_ops :: "ctx_op list" where
  "ex_ops = [OpSet ''a'' (IOther 1), OpAdd ''b'' (IString ''x''), OpAdd ''b'' (IString ''y''),
             OpMerge [''c'' \<mapsto> INil]]"

definition ex_Options :: "64 word \<Rightarrow> 64 word \<Rightarrow> Options" where
  "ex_Options rl rlm =
     \<lparr>ProxyInternal = False, RateLimit = rl, RateLimitMinute = rlm, ExcludeTags = [''intrusive'']\<rparr>"

definition ex_init_env :: init_env where
  "ex_init_env =
     \<lparr>ValidateOptions = (\<lambda>_. None), ProxyURL = [], ProxySocksURL = [],
      httpclientpool_Get = (\<lambda>_. Inr 1),
      ReadIgnoreFile = \<lparr>Tags = [''fuzz'', ''dos''], Files = []\<rparr>,
      NewStatsTicker = Inr 2, CreateConfigIfNotExists = None, reporting_New = Inr 3,
      interactsh_New = (\<lambda>_. Inr 4), NewCatalog = 5, httpx_New = Inr 6,
      updateCheckDone = False, UpdateIfOutdated = None\<rparr>"

definition ex_engine :: "64 word \<Rightarrow> 64 word \<Rightarrow> VulmapEngine" where
  "ex_engine rl rlm = zero_VulmapEngine (ex_Options rl rlm)"

definition ex_exec_env :: "Store \<Rightarrow> exec_env" where
  "ex_exec_env st =
     \<lparr>parsers_NewLoader = (\<lambda>_. Inr 7), loader_New = (\<lambda>_ _ _. Inr st),
      provider_Set = (\<lambda>inputs v. inputs @ [\<lparr>Input = v, CustomIP = []\<rparr>]),
      provider_Count = (\<lambda>inputs. int (length inputs))\<rparr>"

definition ex_ldap_env :: ldap_env where
  "ex_ldap_env =
     \<lparr>IsHostAllowed = (\<lambda>host. host \<noteq> ''10.0.0.1''), Dial = (\<lambda>network address. Inr 1),
      plugin_Run = (\<lambda>c host. Inr (Some 1)), UnauthenticatedBind = (\<lambda>c user. None),
      Bind = (\<lambda>c user pass. None), Search = (\<lambda>c attrs. Inr []), ToLower = (\<lambda>s. s)\<rparr>"

definition ex_request :: HttpRequest where
  "ex_request = \<lparr>Method = ''GET'', Path = ''/admin'', Body = []\<rparr>"

definition ex_templates :: "Template list" where
  "ex_templates =
     [\<lparr>template_id = ''admin-panel'', template_request = ex_request,
       template_matchers =
         [\<lparr>matcher_name = ''ok'', matcher_type = StatusMatcher [200],
           matcher_condition = ORCondition, matcher_negative = False\<rparr>],
       matchers_condition = ORCondition\<rparr>,
      \<lparr>template_id = ''admin-word'', template_request = ex_request,
       template_matchers =
         [\<lparr>matcher_name = ''word'', matcher_type = WordsMatcher [''admin''],
           matcher_condition = ORCondition, matcher_negative = False\<rparr>,
          \<lparr>matcher_name = ''size'', matcher_type = SizeMatcher [0],
           matcher_condition = ORCondition, matcher_negative = True\<rparr>],
       matchers_condition = ANDCondition\<rparr>]"

definition ex_target :: "HttpRequest \<Rightarrow> HttpResponse" where
  "ex_target rq =
     (if Path rq = ''/admin''
      then \<lparr>StatusCode = 200, Header = [], ResponseBody = ''welcome admin''\<rparr>
      else \<lparr>StatusCode = 404, Header = [], ResponseBody = []\<rparr>)"

section \<open>Properties of Context\<close>

lemmas Context_defs =
  NewWithInput_def New_def new_Jar_def new_MetaInput_def new_SyncLockMap_def
  MetaInput_Clone_def Context_Clone_def Context_Set_def Context_Get_def Context_Has_def
  Context_Add_def Context_Merge_def hasArgs_def SyncLockMap_Set_def SyncLockMap_Get_def
  SyncLockMap_Has_def SyncLockMap_IsEmpty_def SyncLockMap_Merge_def SyncLockMap_Clone_def
  jar_read_def jar_write_def jar_read_after_write_def SetCookies_def Context_valid_def
  empty_store_def run_ops_def

lemmas ex_Context_defs =
  ex_ctx_def ex_store0_def ex_store_def ex_clone_def ex_store1_def ex_cookie_def ex_ops_def

subsection \<open>Validity is established and kept\<close>

lemma NewWithInput_valid:
  "NewWithInput input s = (c, s') \<Longrightarrow> Context_valid s' c"
  by (auto simp: NewWithInput_def new_Jar_def new_MetaInput_def new_SyncLockMap_def
      Context_valid_def)

lemma Context_Set_valid:
  "Context_valid s c' \<Longrightarrow> Context_valid (Context_Set c k v s) c'"
  by (auto simp: Context_valid_def Context_Set_def SyncLockMap_Set_def split: option.splits)

lemma Context_Merge_valid:
  "Context_valid s c' \<Longrightarrow> Context_valid (Context_Merge c n s) c'"
  by (auto simp: Context_valid_def Context_Merge_def SyncLockMap_Merge_def split: option.splits)

lemma Context_Add_valid:
  "Context_valid s c' \<Longrightarrow> Context_valid (Context_Add c k v s) c'"
  by (auto simp: Context_Add_def Let_def Context_Set_valid split: prod.splits iface.splits)

lemma Context_Clone_valid:
  assumes "Context_valid s c" and "Context_Clone c s = (c', s1)"
  shows "Context_valid s1 c \<and> Context_valid s1 c'"
  using assms
  by (auto simp: Context_valid_def Context_Clone_def MetaInput_Clone_def new_MetaInput_def
      new_SyncLockMap_def SyncLockMap_Clone_def Let_def split: option.splits)

subsection \<open>The key-value store through the map\<close>

lemma Context_Set_Map:
  "Map (maps (Context_Set c k v s) (args c)) =
     (if ReadOnly (maps s (args c)) then Map (maps s (args c))
      else (Map (maps s (args c)))(k \<mapsto> v))"
  by (simp add: Context_Set_def SyncLockMap_Set_def)

lemma Context_Get_Map:
  "Context_Get c k s =
     (case Map (maps s (args c)) k of None \<Rightarrow> (INil, False) | Some v \<Rightarrow> (v, True))"
  by (auto simp: Context_Get_def hasArgs_def SyncLockMap_IsEmpty_def SyncLockMap_Get_def)

lemma Context_Has_Map:
  "Context_Has c k s = (Map (maps s (args c)) k \<noteq> None)"
  by (auto simp: Context_Has_def hasArgs_def SyncLockMap_IsEmpty_def SyncLockMap_Has_def
      split: option.splits)

lemma Context_Clone_args:
  "Context_Clone c s = (c', s1) \<Longrightarrow>
     args c' = Suc (fresh s) \<and> CookieJar c' = CookieJar c \<and> jars s1 = jars s"
  by (auto simp: Context_Clone_def MetaInput_Clone_def new_MetaInput_def new_SyncLockMap_def
      Let_def)

lemma Context_Add_Map_other:
  "k' \<noteq> k \<Longrightarrow> Map (maps (Context_Add c k v s) (args c)) k' = Map (maps s (args c)) k'"
  by (auto simp: Context_Add_def Context_Set_Map SyncLockMap_Get_def Let_def
      split: option.splits iface.splits prod.splits)

lemma Context_Merge_Map_other:
  "k' \<notin> dom n \<Longrightarrow> Map (maps (Context_Merge c n s) (args c)) k' = Map (maps s (args c)) k'"
  by (auto simp: Context_Merge_def SyncLockMap_Merge_def map_add_def split: option.splits)

lemma run_op_Map_other:
  "k' \<notin> op_keys x \<Longrightarrow> Map (maps (run_op c x s) (args c)) k' = Map (maps s (args c)) k'"
  by (cases x) (auto simp: Context_Add_Map_other Context_Merge_Map_other Context_Set_Map)

lemma run_ops_Map_other:
  "k' \<notin> \<Union> (op_keys ` set ops) \<Longrightarrow>
     Map (maps (run_ops c ops s) (args c)) k' = Map (maps s (args c)) k'"
  unfolding run_ops_def
  by (induction ops arbitrary: s) (auto simp: run_op_Map_other)

lemma NewWithInput_Map:
  "NewWithInput input s0 = (c, s) \<Longrightarrow> Map (maps s (args c)) = Map.empty"
  by (auto simp: NewWithInput_def new_Jar_def new_MetaInput_def new_SyncLockMap_def)

subsection \<open>Clone and the cookie jar\<close>

text \<open>
  C1, amended. The Context returned by \<open>c.Clone()\<close> holds the cookie jar of \<open>c\<close>, not one
  of its own: the jar pointer is copied. What is written through the clone's \<open>CookieJar\<close> is
  what the original reads afterwards, and the other way round.
\<close>

theorem Clone_shares_CookieJar:
  assumes "Context_Clone c s = (c', s1)"
  shows "CookieJar c' = CookieJar c \<and>
         jar_read_after_write c c' f s1 = map_option f (jar_read c s1) \<and>
         jar_read_after_write c' c f s1 = map_option f (jar_read c' s1)"
proof -
  from Context_Clone_args [OF assms] have same: "CookieJar c' = CookieJar c" by simp
  then show ?thesis
    by (simp add: jar_read_after_write_def jar_write_def jar_read_def split: option.splits)
qed

text \<open>
  The Context of \<open>NewWithInput\<close> and its clone: a cookie set through the clone is read
  through the original.
\<close>

theorem Clone_shares_CookieJar_witness:
  "Context_Clone ex_ctx ex_store = (ex_clone, ex_store1) \<and>
   CookieJar ex_clone = CookieJar ex_ctx \<and>
   jar_read_after_write ex_ctx ex_clone (SetCookies ''http://example.com'' [ex_cookie]) ex_store1 =
     Some [(''http://example.com'', ex_cookie)]"
proof -
  have h: "Context_Clone ex_ctx ex_store = (ex_clone, ex_store1)"
    by (simp add: ex_clone_def ex_store1_def)
  have r: "jar_read ex_ctx ex_store1 = Some []"
    by (simp add: ex_Context_defs Context_defs)
  show ?thesis
    using h r
      Clone_shares_CookieJar [OF h, of "SetCookies ''http://example.com'' [ex_cookie]"]
    by (simp add: SetCookies_def)
qed

text \<open>
  C1 as it is stated says that a write to the clone's jar is never visible through the
  original. Here the original's jar is empty before the write and holds the cookie after.
\<close>

theorem Clone_own_CookieJar_counterexample:
  "jar_read ex_ctx ex_store1 = Some [] \<and>
   jar_read_after_write ex_ctx ex_clone (SetCookies ''http://example.com'' [ex_cookie]) ex_store1
     = Some [(''http://example.com'', ex_cookie)] \<and>
   jar_read_after_write ex_ctx ex_clone (SetCookies ''http://example.com'' [ex_cookie]) ex_store1
     \<noteq> jar_read ex_ctx ex_store1"
  by (simp add: ex_Context_defs Context_defs)

subsection \<open>Clone and the key-value store\<close>

text \<open>
  C2. After \<open>c' = c.Clone()\<close>, \<open>c'.Set(k, v)\<close> leaves \<open>c.Get(k2)\<close> unchanged for every
  key \<open>k2\<close>, and \<open>c.Set(k, v)\<close> leaves \<open>c'.Get(k2)\<close> unchanged: the clone's key-value store
  is a map object of its own.
\<close>

theorem Clone_args_isolated:
  assumes "Context_valid s c" and "Context_Clone c s = (c', s1)"
  shows "Context_Get c k2 (Context_Set c' k v s1) = Context_Get c k2 s1 \<and>
         Context_Get c' k2 (Context_Set c k v s1) = Context_Get c' k2 s1"
proof -
  from assms(1) have "args c < fresh s" by (simp add: Context_valid_def)
  moreover from Context_Clone_args [OF assms(2)] have "args c' = Suc (fresh s)" by simp
  ultimately have "args c \<noteq> args c'" by simp
  then show ?thesis
    by (simp add: Context_Get_Map Context_Set_def)
qed

text \<open>
  The original holds \<open>token\<close>; each side then sets \<open>token\<close> anew, and the other side still
  reads the old value.
\<close>

theorem Clone_args_isolated_witness:
  "Context_valid ex_store ex_ctx \<and>
   Context_Clone ex_ctx ex_store = (ex_clone, ex_store1) \<and>
   Context_Get ex_ctx ''token'' (Context_Set ex_clone ''token'' (IString ''new'') ex_store1)
     = (IString ''abc'', True) \<and>
   Context_Get ex_clone ''token'' (Context_Set ex_ctx ''token'' (IString ''new'') ex_store1)
     = (IString ''abc'', True)"
proof -
  have v: "Context_valid ex_store ex_ctx"
    by (simp add: ex_Context_defs Context_defs)
  have h: "Context_Clone ex_ctx ex_store = (ex_clone, ex_store1)"
    by (simp add: ex_clone_def ex_store1_def)
  have g: "Context_Get ex_ctx ''token'' ex_store1 = (IString ''abc'', True)"
          "Context_Get ex_clone ''token'' ex_store1 = (IString ''abc'', True)"
    by (simp_all add: ex_Context_defs Context_defs)
  show ?thesis
    using v h g Clone_args_isolated [OF v h, of "''token''" "''token''" "IString ''new''"]
    by simp
qed

subsection \<open>Set, Get, Has\<close>

lemma Context_Clone_Get:
  assumes "Context_valid s c" and "Context_Clone c s = (c', s1)"
  shows "Context_Get c' k s1 = Context_Get c k s"
  using assms
  by (auto simp: Context_Get_Map Context_valid_def Context_Clone_def MetaInput_Clone_def
      new_MetaInput_def new_SyncLockMap_def SyncLockMap_Clone_def Let_def)

text \<open>
  C8, amended. Immediately after \<open>c.Set(k, v)\<close>, \<open>c.Get(k)\<close> returns \<open>(v, true)\<close> and
  \<open>c.Has(k)\<close> returns true. For every key that the store of \<open>c\<close> does not hold, and that
  no \<open>Set\<close>, \<open>Add\<close> or \<open>Merge\<close> on \<open>c\<close> names afterwards, \<open>c.Get\<close> returns
  \<open>(nil, false)\<close>. A new Context holds no key; a clone starts with the keys and values
  of its original, so on a clone a key can be present that was never set on the clone.
\<close>

theorem Set_Get_Has_absent_key:
  assumes "Context_valid s c"
  shows "Context_Get c k (Context_Set c k v s) = (v, True) \<and>
         Context_Has c k (Context_Set c k v s) \<and>
         (\<not> Context_Has c k' s \<and> k' \<notin> \<Union> (op_keys ` set ops) \<longrightarrow>
            Context_Get c k' (run_ops c ops s) = (INil, False)) \<and>
         (NewWithInput input s0 = (c, s) \<longrightarrow> \<not> Context_Has c k' s) \<and>
         (Context_Clone c s = (c', s1) \<longrightarrow> Context_Get c' k' s1 = Context_Get c k' s)"
  using assms Context_Clone_Get [OF assms, of c' s1 k']
  by (auto simp: Context_valid_def Context_Get_Map Context_Has_Map Context_Set_Map
      run_ops_Map_other NewWithInput_Map)

text \<open>
  A new Context: \<open>k\<close> after \<open>Set\<close>, and \<open>z\<close> after writes that name other keys. Then
  the Context that holds \<open>token\<close>, and its clone.
\<close>

theorem Set_Get_Has_absent_key_witness:
  "Context_valid ex_store0 ex_ctx \<and>
   Context_Get ex_ctx ''k'' (Context_Set ex_ctx ''k'' (IOther 5) ex_store0) = (IOther 5, True) \<and>
   Context_Has ex_ctx ''k'' (Context_Set ex_ctx ''k'' (IOther 5) ex_store0) \<and>
   Context_Has ex_ctx ''z'' ex_store0 = False \<and>
   Context_Get ex_ctx ''z'' (run_ops ex_ctx ex_ops ex_store0) = (INil, False) \<and>
   Context_valid ex_store ex_ctx \<and>
   Context_Clone ex_ctx ex_store = (ex_clone, ex_store1) \<and>
   Context_Get ex_clone ''token'' ex_store1 = Context_Get ex_ctx ''token'' ex_store"
proof -
  have v: "Context_valid ex_store0 ex_ctx"
    by (simp add: ex_Context_defs Context_defs)
  have n: "NewWithInput ''http://example.com'' empty_store = (ex_ctx, ex_store0)"
    by (simp add: ex_ctx_def ex_store0_def)
  have z: "''z'' \<notin> \<Union> (op_keys ` set ex_ops)"
    by (simp add: ex_ops_def)
  have v': "Context_valid ex_store ex_ctx"
    by (simp add: ex_Context_defs Context_defs)
  have h: "Context_Clone ex_ctx ex_store = (ex_clone, ex_store1)"
    by (simp add: ex_clone_def ex_store1_def)
  show ?thesis
    using v n z v' h
      Set_Get_Has_absent_key [OF v, where k = "''k''" and v = "IOther 5" and k' = "''z''"
        and ops = ex_ops and input = "''http://example.com''" and ?s0.0 = empty_store]
      Set_Get_Has_absent_key [OF v', where c' = ex_clone and ?s1.0 = ex_store1
        and k' = "''token''"]
    by simp
qed

text \<open>
  C8 as it is stated promises \<open>(nil, false)\<close> for every key never set on a Context. The
  clone of a Context that holds \<open>token\<close> has had no \<open>Set\<close>, \<open>Add\<close> or \<open>Merge\<close> called on
  it, and its \<open>Get\<close> returns the original's value.
\<close>

theorem Get_never_set_on_clone_counterexample:
  "Context_Clone ex_ctx ex_store = (ex_clone, ex_store1) \<and>
   Context_Get ex_clone ''token'' ex_store1 = (IString ''abc'', True) \<and>
   Context_Get ex_clone ''token'' ex_store1 \<noteq> (INil, False)"
  by (simp add: ex_Context_defs Context_defs)

subsection \<open>Add under a fresh key\<close>

text \<open>
  What \<open>Add\<close> leaves under a key that the Context did not have: the value itself when it
  is a string or a slice of strings, and otherwise a two-element slice that holds the
  value twice, because the type switch runs after the \<open>Set\<close>.
\<close>

lemma Context_Add_fresh_key:
  assumes "Context_valid s c" and "\<not> Context_Has c k s"
  shows "Context_Get c k (Context_Add c k v s) =
           (case v of
              IString str \<Rightarrow> (v, True)
            | IStrings vs \<Rightarrow> (v, True)
            | _ \<Rightarrow> (ISlice [v, v], True))"
  using assms
  by (auto simp: Context_valid_def Context_Has_Map Context_Get_Map Context_Add_def
      Context_Set_Map SyncLockMap_Get_def Context_Set_def SyncLockMap_Set_def
      split: iface.splits)

text \<open>
  C9 says that after \<open>c.Add(k, v)\<close> under a key that \<open>c\<close> does not have, \<open>c.Get(k)\<close>
  returns \<open>(v, true)\<close>, for values of any type. On a new Context, with a value that is
  neither a string nor a slice of strings, \<open>Get\<close> returns the slice \<open>[v, v]\<close> instead.
\<close>

theorem Add_fresh_key_other_type:
  "Context_Has ex_ctx ''k'' ex_store0 = False \<and>
   Context_Get ex_ctx ''k'' (Context_Add ex_ctx ''k'' (IOther 7) ex_store0)
     = (ISlice [IOther 7, IOther 7], True)"
  by (simp add: ex_Context_defs Context_defs)


section \<open>Properties of the SDK engine\<close>

subsection \<open>What the blocks of init leave alone\<close>

lemma positive_uint_conversion:
  fixes w :: "64 word"
  assumes "0 <s w"
  shows "unat w = nat (sint w)"
proof -
  from assms have pos: "0 < sint w" by (simp add: word_sless_alt)
  have "sint w < 2 ^ 63" using sint_less [of w] by simp
  then have "sint w < 2 ^ 64" by simp
  with pos have "take_bit 64 (sint w) = sint w"
    by (simp add: take_bit_int_eq_self)
  then have "uint w = sint w" using uint_sint [of w] by simp
  then show ?thesis by (simp add: unat_eq_nat_uint)
qed

lemma ratelimit_choice:
  "(if 0 <s rlm then ratelimit_New rlm Minute
    else if 0 <s rl then ratelimit_New rl Second else ratelimit_NewUnlimited)
   = spec_RateLimiter (sint rlm) (sint rl)"
  by (simp add: spec_RateLimiter_def ratelimit_New_def ratelimit_NewUnlimited_def
      positive_uint_conversion word_sless_alt)

lemma applyRequiredDefaults_fields:
  "RateLimit (opts (applyRequiredDefaults env e)) = RateLimit (opts e)"
  "RateLimitMinute (opts (applyRequiredDefaults env e)) = RateLimitMinute (opts e)"
  "ProxyInternal (opts (applyRequiredDefaults env e)) = ProxyInternal (opts e)"
  "ExcludeTags (opts (applyRequiredDefaults env e)) = Tags (ReadIgnoreFile env)"
  "engine (applyRequiredDefaults env e) = engine e"
  "inputProvider (applyRequiredDefaults env e) = Some []"
  by (simp_all add: applyRequiredDefaults_def Let_def split: option.splits)

lemma applyRequiredDefaults_hostErrCache:
  "hostErrCache (applyRequiredDefaults env e) =
     (case hostErrCache e of
        None \<Rightarrow> Some (hosterrorscache_New 30 DefaultMaxHostsCount [])
      | Some cache \<Rightarrow> Some cache)"
  by (simp add: applyRequiredDefaults_def Let_def split: option.splits)

lemma set_interactshOpts_fields:
  "opts (set_interactshOpts f e) = opts e"
  "hostErrCache (set_interactshOpts f e) = hostErrCache e"
  "engine (set_interactshOpts f e) = engine e"
  "httpClient (set_interactshOpts f e) = httpClient e"
  "executerOpts (set_interactshOpts f e) = executerOpts e"
  "rc (set_interactshOpts f e) = rc e"
  by (simp_all add: set_interactshOpts_def)

lemma init_httpClient_fields:
  "init_httpClient env e = Inr e1 \<Longrightarrow>
     opts e1 = opts e \<and> hostErrCache e1 = hostErrCache e \<and> engine e1 = engine e"
  by (auto simp: init_httpClient_def split: if_splits sum.splits)

lemma init_progress_fields:
  "init_progress env e = Inr e1 \<Longrightarrow>
     opts e1 = opts e \<and> hostErrCache e1 = hostErrCache e \<and> engine e1 = engine e"
  by (auto simp: init_progress_def set_interactshOpts_fields split: if_splits sum.splits)

lemma init_interactshOpts_fields:
  "opts (init_interactshOpts e) = opts e"
  "hostErrCache (init_interactshOpts e) = hostErrCache e"
  "engine (init_interactshOpts e) = engine e"
  by (simp_all add: init_interactshOpts_def Let_def set_interactshOpts_fields)

lemma init_executerOpts_fields:
  "opts (init_executerOpts env e) = opts e"
  "hostErrCache (init_executerOpts env e) = hostErrCache e"
  "engine (init_executerOpts env e) = engine e"
  by (simp_all add: init_executerOpts_def Let_def)

lemma init_RateLimiter_fields:
  "opts (init_RateLimiter e) = opts e"
  "hostErrCache (init_RateLimiter e) = hostErrCache e"
  "engine (init_RateLimiter e) = engine e"
  "xo_RateLimiter (executerOpts (init_RateLimiter e)) =
     Some (spec_RateLimiter (sint (RateLimitMinute (opts e))) (sint (RateLimit (opts e))))"
  by (simp_all add: init_RateLimiter_def ratelimit_choice [symmetric])

lemma init_engine_fields:
  "opts (init_engine e) = opts e"
  "hostErrCache (init_engine e) = hostErrCache e"
  "engine (init_engine e) = Some \<lparr>ce_options = opts e, ce_executerOpts = executerOpts e\<rparr>"
  by (simp_all add: init_engine_def)

lemmas init_fields =
  applyRequiredDefaults_fields set_interactshOpts_fields init_interactshOpts_fields
  init_executerOpts_fields init_RateLimiter_fields init_engine_fields

lemma init_ExcludeTags:
  "fst (init env e) = None \<Longrightarrow>
     ExcludeTags (opts (snd (init env e))) = Tags (ReadIgnoreFile env)"
  unfolding init_def
  by (auto simp: Let_def init_fields
      dest!: init_httpClient_fields init_progress_fields
      split: option.splits sum.splits)

lemma init_hostErrCache:
  "fst (init env e) = None \<Longrightarrow> hostErrCache e = None \<Longrightarrow>
     hostErrCache (snd (init env e)) = Some (hosterrorscache_New 30 DefaultMaxHostsCount [])"
  unfolding init_def
  by (auto simp: Let_def init_fields applyRequiredDefaults_hostErrCache
      dest!: init_httpClient_fields init_progress_fields
      split: option.splits sum.splits)

lemma init_engine_RateLimiter:
  "engine e = None \<Longrightarrow> engine (snd (init env e)) = Some ce \<Longrightarrow>
     xo_RateLimiter (ce_executerOpts ce) =
       Some (spec_RateLimiter (sint (RateLimitMinute (opts e))) (sint (RateLimit (opts e))))"
  unfolding init_def
  by (auto simp: Let_def init_fields
      dest!: init_httpClient_fields init_progress_fields
      split: option.splits sum.splits)

lemma createEphemeralObjects_RateLimiter:
  "createEphemeralObjects base options = Inr u \<Longrightarrow>
     xo_RateLimiter (u_executerOpts u) =
       Some (spec_RateLimiter (sint (RateLimitMinute options)) (sint (RateLimit options)))"
  by (auto simp: createEphemeralObjects_def Let_def ratelimit_choice [symmetric])

lemma createEphemeralObjects_returns:
  "\<exists>u. createEphemeralObjects base options = Inr u"
  by (simp add: createEphemeralObjects_def Let_def)

lemmas init_defs =
  init_def init_httpClient_def init_progress_def init_interactshOpts_def
  init_executerOpts_def init_RateLimiter_def init_engine_def processUpdateCheckResults_def
  applyRequiredDefaults_def set_interactshOpts_def interactsh_DefaultOptions_def
  zero_VulmapEngine_def zero_ExecutorOptions_def hosterrorscache_New_def
  DefaultMaxHostsCount_def ratelimit_New_def ratelimit_NewUnlimited_def
  ex_init_env_def ex_engine_def ex_Options_def

subsection \<open>The rate limiter of the executor\<close>

text \<open>
  C3. For every options value, the rate limiter built for the executor is: a bucket of
  \<open>RateLimitMinute\<close> tokens per minute if \<open>RateLimitMinute > 0\<close> (also when \<open>RateLimit\<close> is
  set as well); otherwise a bucket of \<open>RateLimit\<close> tokens per second if \<open>RateLimit > 0\<close>;
  otherwise the unlimited limiter. This holds for the executor options that
  \<open>createEphemeralObjects\<close> returns, which it always does, and for those of the core engine
  that \<open>init\<close> builds.
\<close>

theorem executor_RateLimiter_choice:
  "(\<exists>u. createEphemeralObjects base options = Inr u) \<and>
   (createEphemeralObjects base options = Inr u \<longrightarrow>
      xo_RateLimiter (u_executerOpts u) =
        Some (spec_RateLimiter (sint (RateLimitMinute options)) (sint (RateLimit options)))) \<and>
   (engine e = None \<and> engine (snd (init env e)) = Some ce \<longrightarrow>
      xo_RateLimiter (ce_executerOpts ce) =
        Some (spec_RateLimiter (sint (RateLimitMinute (opts e))) (sint (RateLimit (opts e)))))"
  using createEphemeralObjects_returns createEphemeralObjects_RateLimiter init_engine_RateLimiter
  by blast

text \<open>
  Both settings given: the bucket is per minute. Only the per-second setting: per second.
  Neither positive: unlimited. And \<open>init\<close> on an engine with both settings.
\<close>

theorem executor_RateLimiter_choice_witness:
  "map_sum id (\<lambda>u. xo_RateLimiter (u_executerOpts u))
     (createEphemeralObjects (ex_engine 0 0) (ex_Options 10 60)) = Inr (Some (Bucket 60 Minute)) \<and>
   map_sum id (\<lambda>u. xo_RateLimiter (u_executerOpts u))
     (createEphemeralObjects (ex_engine 0 0) (ex_Options 10 0)) = Inr (Some (Bucket 10 Second)) \<and>
   map_sum id (\<lambda>u. xo_RateLimiter (u_executerOpts u))
     (createEphemeralObjects (ex_engine 0 0) (ex_Options 0 (- 5))) = Inr (Some Unlimited) \<and>
   engine (ex_engine 10 60) = None \<and>
   map_option (\<lambda>ce. xo_RateLimiter (ce_executerOpts ce))
     (engine (snd (init ex_init_env (ex_engine 10 60)))) = Some (Some (Bucket 60 Minute))"
proof -
  have a: "\<And>o' u. createEphemeralObjects (ex_engine 0 0) o' = Inr u \<Longrightarrow>
      xo_RateLimiter (u_executerOpts u) =
        Some (spec_RateLimiter (sint (RateLimitMinute o')) (sint (RateLimit o')))"
    using executor_RateLimiter_choice by blast
  have b: "\<And>o'. \<exists>u. createEphemeralObjects (ex_engine 0 0) o' = Inr u"
    using executor_RateLimiter_choice by blast
  have c: "\<And>o'. map_sum id (\<lambda>u. xo_RateLimiter (u_executerOpts u))
     (createEphemeralObjects (ex_engine 0 0) o') =
       Inr (Some (spec_RateLimiter (sint (RateLimitMinute o')) (sint (RateLimit o'))))"
    using a b by (metis map_sum.simps(2))
  have n: "engine (ex_engine 10 60) = None"
    by (simp add: ex_engine_def zero_VulmapEngine_def)
  have "\<exists>ce. engine (snd (init ex_init_env (ex_engine 10 60))) = Some ce"
    by (simp add: init_defs Let_def)
  then obtain ce where ce: "engine (snd (init ex_init_env (ex_engine 10 60))) = Some ce" ..
  with n executor_RateLimiter_choice [of _ _ _ "ex_engine 10 60" ex_init_env ce]
  have "xo_RateLimiter (ce_executerOpts ce) =
      Some (spec_RateLimiter (sint (RateLimitMinute (opts (ex_engine 10 60))))
        (sint (RateLimit (opts (ex_engine 10 60)))))"
    by blast
  with ce n c show ?thesis
    by (simp add: spec_RateLimiter_def ex_engine_def ex_Options_def zero_VulmapEngine_def)
qed

subsection \<open>The default host error cache\<close>

text \<open>
  C4. When no host error cache has been supplied, engine initialisation builds the host
  error cache with the error threshold 30 and the default maximum number of tracked hosts,
  which is 10,000. This is what \<open>applyRequiredDefaults\<close> does, and what the engine holds
  when \<open>init\<close> has returned without an error.
\<close>

theorem default_hostErrCache:
  assumes "hostErrCache e = None"
  shows "hostErrCache (applyRequiredDefaults env e) =
           Some \<lparr>MaxHostError = 30, MaxHostsCount = DefaultMaxHostsCount, TrackError = []\<rparr> \<and>
         DefaultMaxHostsCount = 10000 \<and>
         (fst (init env e) = None \<longrightarrow>
            hostErrCache (snd (init env e)) =
              Some \<lparr>MaxHostError = 30, MaxHostsCount = 10000, TrackError = []\<rparr>)"
  using assms init_hostErrCache [of env e]
  by (simp add: applyRequiredDefaults_hostErrCache hosterrorscache_New_def
      DefaultMaxHostsCount_def)

theorem default_hostErrCache_witness:
  "hostErrCache (ex_engine 150 0) = None \<and>
   fst (init ex_init_env (ex_engine 150 0)) = None \<and>
   hostErrCache (snd (init ex_init_env (ex_engine 150 0))) =
     Some \<lparr>MaxHostError = 30, MaxHostsCount = 10000, TrackError = []\<rparr>"
proof -
  have n: "hostErrCache (ex_engine 150 0) = None"
    by (simp add: ex_engine_def zero_VulmapEngine_def)
  have ok: "fst (init ex_init_env (ex_engine 150 0)) = None"
    by (simp add: init_defs Let_def)
  show ?thesis
    using n ok default_hostErrCache [OF n, of ex_init_env] by simp
qed

subsection \<open>The exclude tags\<close>

text \<open>
  C7. At engine initialisation the exclude-tags option of the engine is set to exactly the
  tags of the ignore file, which is read at that point: by \<open>applyRequiredDefaults\<close>, and so
  in the engine that \<open>init\<close> leaves when it returns without an error.
\<close>

theorem ExcludeTags_from_ignore_file:
  "ExcludeTags (opts (applyRequiredDefaults env e)) = Tags (ReadIgnoreFile env) \<and>
   (fst (init env e) = None \<longrightarrow>
      ExcludeTags (opts (snd (init env e))) = Tags (ReadIgnoreFile env))"
  using init_ExcludeTags [of env e]
  by (simp add: applyRequiredDefaults_fields)

theorem ExcludeTags_from_ignore_file_witness:
  "ExcludeTags (opts (ex_engine 150 0)) = [''intrusive''] \<and>
   fst (init ex_init_env (ex_engine 150 0)) = None \<and>
   ExcludeTags (opts (snd (init ex_init_env (ex_engine 150 0)))) = [''fuzz'', ''dos'']"
proof -
  have ok: "fst (init ex_init_env (ex_engine 150 0)) = None"
    by (simp add: init_defs Let_def)
  have tags: "Tags (ReadIgnoreFile ex_init_env) = [''fuzz'', ''dos'']"
    by (simp add: ex_init_env_def)
  show ?thesis
    using ok tags ExcludeTags_from_ignore_file [of ex_init_env "ex_engine 150 0"]
    by (simp add: ex_engine_def ex_Options_def zero_VulmapEngine_def)
qed

subsection \<open>ExecuteVulmapWithOpts without templates or without targets\<close>

lemma ExecuteVulmapWithOpts_loaded:
  assumes "apply_options options (zero_VulmapEngine (opts eng)) = Inr tmpEngine"
    and "createEphemeralObjects eng (opts tmpEngine) = Inr unsafeOpts"
    and "parsers_NewLoader env (u_executerOpts unsafeOpts) = Inr workflowLoader"
    and "loader_New env (opts tmpEngine) (catalog eng)
           ((u_executerOpts unsafeOpts)\<lparr>xo_WorkflowLoader := Some workflowLoader\<rparr>) = Inr st"
  shows "ExecuteVulmapWithOpts env eng targets options =
           (if Templates st = [] \<and> Workflows st = [] then (Some ErrNoTemplatesAvailable, None)
            else if provider_Count env (load_targets env targets) = 0
            then (Some ErrNoTargetsAvailable, None)
            else (None, Some \<lparr>scan_executerOpts =
                                (u_executerOpts unsafeOpts)\<lparr>xo_WorkflowLoader := Some workflowLoader\<rparr>,
                              scan_templates = Templates st,
                              scan_inputs = load_targets env targets\<rparr>))"
  using assms by (simp add: ExecuteVulmapWithOpts_def Let_def)

text \<open>
  C5. When a call of \<open>ExecuteVulmapWithOpts\<close> has loaded the template store: if the store
  holds no template and no workflow, the call returns \<open>ErrNoTemplatesAvailable\<close> and starts
  no scan; if it holds some but the input provider counts no target, the call returns
  \<open>ErrNoTargetsAvailable\<close> and starts no scan.
\<close>

theorem ExecuteVulmapWithOpts_nothing_to_scan:
  assumes "apply_options options (zero_VulmapEngine (opts eng)) = Inr tmpEngine"
    and "createEphemeralObjects eng (opts tmpEngine) = Inr unsafeOpts"
    and "parsers_NewLoader env (u_executerOpts unsafeOpts) = Inr workflowLoader"
    and "loader_New env (opts tmpEngine) (catalog eng)
           ((u_executerOpts unsafeOpts)\<lparr>xo_WorkflowLoader := Some workflowLoader\<rparr>) = Inr st"
  shows "(Templates st = [] \<and> Workflows st = [] \<longrightarrow>
            ExecuteVulmapWithOpts env eng targets options = (Some ErrNoTemplatesAvailable, None)) \<and>
         (\<not> (Templates st = [] \<and> Workflows st = []) \<and>
            provider_Count env (load_targets env targets) = 0 \<longrightarrow>
            ExecuteVulmapWithOpts env eng targets options = (Some ErrNoTargetsAvailable, None))"
  using ExecuteVulmapWithOpts_loaded [OF assms, of targets] by simp

lemmas exec_defs =
  ExecuteVulmapWithOpts_def createEphemeralObjects_def load_targets_def ex_exec_env_def
  ex_engine_def ex_Options_def zero_VulmapEngine_def zero_ExecutorOptions_def
  ratelimit_New_def ratelimit_NewUnlimited_def

theorem ExecuteVulmapWithOpts_nothing_to_scan_witness:
  "ExecuteVulmapWithOpts (ex_exec_env \<lparr>Templates = [], Workflows = []\<rparr>) (ex_engine 150 0)
     [''http://example.com''] [] = (Some ErrNoTemplatesAvailable, None) \<and>
   ExecuteVulmapWithOpts (ex_exec_env \<lparr>Templates = [''admin-panel''], Workflows = []\<rparr>)
     (ex_engine 150 0) [] [] = (Some ErrNoTargetsAvailable, None) \<and>
   fst (ExecuteVulmapWithOpts (ex_exec_env \<lparr>Templates = [''admin-panel''], Workflows = []\<rparr>)
     (ex_engine 150 0) [''http://example.com''] []) = None"
proof -
  let ?eng = "ex_engine 150 0"
  obtain u where u: "createEphemeralObjects ?eng (opts (zero_VulmapEngine (opts ?eng))) = Inr u"
    using createEphemeralObjects_returns by blast
  have a: "apply_options [] (zero_VulmapEngine (opts ?eng)) = Inr (zero_VulmapEngine (opts ?eng))"
    by simp
  have l: "\<And>st. parsers_NewLoader (ex_exec_env st) (u_executerOpts u) = Inr 7"
    by (simp add: ex_exec_env_def)
  have s: "\<And>st. loader_New (ex_exec_env st) (opts (zero_VulmapEngine (opts ?eng))) (catalog ?eng)
         ((u_executerOpts u)\<lparr>xo_WorkflowLoader := Some 7\<rparr>) = Inr st"
    by (simp add: ex_exec_env_def)
  have c: "provider_Count (ex_exec_env \<lparr>Templates = [''admin-panel''], Workflows = []\<rparr>)
             (load_targets (ex_exec_env \<lparr>Templates = [''admin-panel''], Workflows = []\<rparr>) []) = 0"
    by (simp add: ex_exec_env_def load_targets_def)
  have third: "fst (ExecuteVulmapWithOpts (ex_exec_env \<lparr>Templates = [''admin-panel''], Workflows = []\<rparr>)
     (ex_engine 150 0) [''http://example.com''] []) = None"
    by (simp add: exec_defs Let_def)
  show ?thesis
    using c third
      ExecuteVulmapWithOpts_nothing_to_scan [OF a u l s, of "\<lparr>Templates = [], Workflows = []\<rparr>" "[''http://example.com'']"]
      ExecuteVulmapWithOpts_nothing_to_scan [OF a u l s, of "\<lparr>Templates = [''admin-panel''], Workflows = []\<rparr>" "[]"]
    by simp
qed

section \<open>Properties of the LDAP client\<close>

lemma IsLdap_allowed_dials:
  "IsHostAllowed env host \<Longrightarrow>
     hd (snd (IsLdap env host port')) = Dialed ''tcp'' (host @ '':'' @ Itoa port')"
  by (simp add: IsLdap_def Let_def split: sum.splits option.splits)

text \<open>
  \<open>IsLdap\<close> tests the host that it would dial. \<open>CollectLdapMetadata\<close> tests its first
  argument, the domain; when that is denied, both return \<open>ErrHostDenied\<close> and attempt no
  dial.
\<close>

lemma ldap_denied_first_argument:
  assumes "\<not> IsHostAllowed env host"
  shows "IsLdap env host port' = ((False, Some (ErrHostDenied host)), []) \<and>
         CollectLdapMetadata env host controller =
           ((zero_LDAPMetadata, Some (ErrHostDenied host)), [])"
  using assms by (simp add: IsLdap_def CollectLdapMetadata_def)

text \<open>
  The host that \<open>CollectLdapMetadata\<close> dials is its second argument, the controller, and
  the policy is never asked about it.
\<close>

lemma CollectLdapMetadata_dials_controller:
  assumes "IsHostAllowed env domain'"
  shows "hd (snd (CollectLdapMetadata env domain' controller)) =
           Dialed ''tcp'' (controller @ '':'' @ Itoa 389)"
  using assms
  by (simp add: CollectLdapMetadata_def newLdapSession_def Let_def split: sum.splits)

lemma Itoa_389: "Itoa 389 = ''389''"
  by code_simp

text \<open>
  C10 says that for every host that the network policy does not allow, \<open>IsLdap\<close> and
  \<open>CollectLdapMetadata\<close> return \<open>ErrHostDenied\<close> without attempting a dial. With a
  policy that denies \<open>10.0.0.1\<close> and allows \<open>example.com\<close>, \<open>IsLdap\<close> on the denied
  host does so, but \<open>CollectLdapMetadata\<close> with the allowed domain and the denied host as
  controller dials \<open>10.0.0.1:389\<close> and returns no error.
\<close>

theorem CollectLdapMetadata_denied_controller:
  "IsHostAllowed ex_ldap_env ''10.0.0.1'' = False \<and>
   IsHostAllowed ex_ldap_env ''example.com'' = True \<and>
   IsLdap ex_ldap_env ''10.0.0.1'' 389 = ((False, Some (ErrHostDenied ''10.0.0.1'')), []) \<and>
   CollectLdapMetadata ex_ldap_env ''example.com'' ''10.0.0.1'' =
     ((zero_LDAPMetadata, None), [Dialed ''tcp'' ''10.0.0.1:389'', Closed 1])"
  by (simp add: ex_ldap_env_def IsLdap_def CollectLdapMetadata_def newLdapSession_def
      collectLdapMetadata_def getBaseNamingContext_def parseDC_def TrimPrefix_def
      zero_LDAPMetadata_def Itoa_389 Let_def)

section \<open>Properties of clustering\<close>

text \<open>
  C6. Running a set of HTTP templates with the same base request as a cluster (one request
  to the target, each member evaluating its own matchers on the shared response) emits
  the same result events as running each template on its own against the same target; the
  cluster sends the base request once.
\<close>

theorem cluster_equivalence:
  assumes "same_base_request ts"
  shows "fst (run_cluster target url ts) = fst (run_separately target url ts) \<and>
         snd (run_cluster target url ts) = take 1 (map template_request ts)"
proof (cases ts)
  case Nil
  then show ?thesis by (simp add: run_cluster_def run_separately_def)
next
  case (Cons t0 rest)
  with assms have same: "\<forall>t \<in> set ts. template_request t = template_request t0"
    by (auto simp: same_base_request_def list_all_iff)
  then have "map (\<lambda>t. evaluate t url (target (template_request t0))) ts =
             map (\<lambda>t. fst (run_template target url t)) ts"
    by (simp add: run_template_def)
  with Cons show ?thesis
    by (simp add: run_cluster_def run_separately_def Let_def del: map_eq_conv)
qed

lemmas cluster_defs =
  run_cluster_def run_separately_def run_template_def evaluate_def match_def combine_def
  same_base_request_def ex_templates_def ex_request_def ex_target_def

theorem cluster_equivalence_witness:
  "same_base_request ex_templates \<and>
   fst (run_separately ex_target ''http://example.com'' ex_templates) =
     [\<lparr>TemplateID = ''admin-panel'', Matched = ''http://example.com'', MatcherNames = [''ok'']\<rparr>,
      \<lparr>TemplateID = ''admin-word'', Matched = ''http://example.com'',
       MatcherNames = [''word'', ''size'']\<rparr>] \<and>
   fst (run_cluster ex_target ''http://example.com'' ex_templates) =
     fst (run_separately ex_target ''http://example.com'' ex_templates) \<and>
   snd (run_cluster ex_target ''http://example.com'' ex_templates) = [ex_request]"
proof -
  have s: "same_base_request ex_templates"
    by (simp add: same_base_request_def ex_templates_def)
  have e: "fst (run_separately ex_target ''http://example.com'' ex_templates) =
     [\<lparr>TemplateID = ''admin-panel'', Matched = ''http://example.com'', MatcherNames = [''ok'']\<rparr>,
      \<lparr>TemplateID = ''admin-word'', Matched = ''http://example.com'',
       MatcherNames = [''word'', ''size'']\<rparr>]"
    by (simp add: cluster_defs)
  have r: "take 1 (map template_request ex_templates) = [ex_request]"
    by (simp add: ex_templates_def)
  show ?thesis
    using s e r cluster_equivalence [OF s, of ex_target "''http://example.com''"] by simp
qed

end
